theory Spec2Isabelle
  imports Main
begin

section \<open>Cache Policy Handler (routes/layout.tsx, onGet)\<close>

text \<open>
  The object literal handed to \<open>cacheControl\<close>: its properties with their values, in
  the order in which the source writes them.
\<close>

type_synonym CacheControlOptions = "(string \<times> int) list"

text \<open>
  The request event as far as the handler can touch it: the route and the request body
  it could read, and the response under construction (status, headers, and the cache
  directives of the response).
\<close>

record RequestEvent =
  pathname :: string
  requestBody :: string
  status :: int
  headers :: "string \<rightharpoonup> string"
  cacheDirectives :: "string \<rightharpoonup> int"

text \<open>
  \<open>cacheControl(options)\<close> of the request event: the directives of the response become
  those of the options object.
\<close>

definition cacheControl :: "CacheControlOptions \<Rightarrow> RequestEvent \<Rightarrow> RequestEvent" where
  "cacheControl options ev = ev\<lparr>cacheDirectives := map_of options\<rparr>"

text \<open>
  \<^verbatim>\<open>
  export const onGet: RequestHandler = async ({ cacheControl }) => {
    cacheControl({
      staleWhileRevalidate: 60 * 60 * 24 * 7,
      maxAge: 5,
    });
  };
  \<close>
\<close>

definition onGet :: "RequestEvent \<Rightarrow> RequestEvent" where
  "onGet ev =
     cacheControl [(''staleWhileRevalidate'', 60 * 60 * 24 * 7), (''maxAge'', 5)] ev"

section \<open>Preference Store, Context Distribution, Hydration Reconciler\<close>

text \<open>
  \<^verbatim>\<open>type Store = { theme: "light" | "dark" | "system" };\<close>
  The type is erased when the program runs: the field holds a JavaScript string or
  \<open>null\<close>. \<open>None\<close> is \<open>null\<close>.
\<close>

record Store =
  theme :: "string option"

text \<open>The values the type \<open>Store\<close> names for the field.\<close>

definition theme_values :: "string set" where
  "theme_values = {''light'', ''dark'', ''system''}"

text \<open>A closure registered with \<open>useVisibleTask$\<close>, with the store instance it captured.\<close>

datatype task = ReconcileTheme nat

text \<open>
  The page instance. Store instances live in \<open>heap\<close> and are identified by their position
  there, so that two holders of the same position hold the same instance. \<open>contexts\<close>
  binds context ids to the instance provided for them, \<open>visibleTasks\<close> are the tasks
  waiting for the page to become visible in the browser, \<open>localStorage\<close> is the browser's
  storage, \<open>signals\<close> records each assignment made through a store, as (instance,
  field), and \<open>notifications\<close> records each time the store told the subscribers of a
  field (the components that read it when they last rendered) of a new value.
\<close>

record Page =
  heap :: "Store list"
  contexts :: "string \<rightharpoonup> nat"
  visibleTasks :: "task list"
  localStorage :: "string \<rightharpoonup> string"
  signals :: "(nat \<times> string) list"
  notifications :: "(nat \<times> string) list"

definition createContextId :: "string \<Rightarrow> string" where
  "createContextId name = name"

definition StoreContext :: string where
  "StoreContext = createContextId ''Store''"

definition useStore :: "Store \<Rightarrow> Page \<Rightarrow> nat \<times> Page" where
  "useStore initial pg = (length (heap pg), pg\<lparr>heap := heap pg @ [initial]\<rparr>)"

definition useContextProvider :: "string \<Rightarrow> nat \<Rightarrow> Page \<Rightarrow> Page" where
  "useContextProvider cid store pg = pg\<lparr>contexts := (contexts pg)(cid \<mapsto> store)\<rparr>"

definition useContext :: "string \<Rightarrow> Page \<Rightarrow> nat option" where
  "useContext cid pg = contexts pg cid"

definition useVisibleTask :: "task \<Rightarrow> Page \<Rightarrow> Page" where
  "useVisibleTask t pg = pg\<lparr>visibleTasks := visibleTasks pg @ [t]\<rparr>"

text \<open>\<open>localStorage.getItem(key)\<close>: the stored string, or \<open>null\<close>.\<close>

definition getItem :: "(string \<rightharpoonup> string) \<Rightarrow> string \<Rightarrow> string option" where
  "getItem storage key = storage key"

text \<open>Reading \<open>store.theme\<close> through a held instance.\<close>

definition read_theme :: "nat \<Rightarrow> Page \<Rightarrow> string option" where
  "read_theme store pg = theme (heap pg ! store)"

text \<open>
  The assignment \<open>store.theme = v\<close>. The source only ever assigns through an instance
  that \<open>useStore\<close> returned, so \<open>store\<close> is a position of the heap. The store of the
  framework writes the value and tells the subscribers of the field only when the new
  value differs from the old one (\<open>oldValue !== newValue\<close>).
\<close>

definition set_theme :: "nat \<Rightarrow> string option \<Rightarrow> Page \<Rightarrow> Page" where
  "set_theme store v pg =
     pg\<lparr>heap := (heap pg)[store := (heap pg ! store)\<lparr>theme := v\<rparr>],
        signals := signals pg @ [(store, ''theme'')],
        notifications :=
          notifications pg @ (if theme (heap pg ! store) \<noteq> v then [(store, ''theme'')] else [])\<rparr>"

text \<open>How often the subscribers of a field of a store instance have been notified.\<close>

definition times_notified :: "nat \<Rightarrow> string \<Rightarrow> Page \<Rightarrow> nat" where
  "times_notified store field pg = count_list (notifications pg) (store, field)"

text \<open>
  \<^verbatim>\<open>
  useVisibleTask$(() => {
    const theme = localStorage.getItem("theme") as Store['theme'];
    store.theme = theme;
  });
  \<close>
  The cast is erased: nothing is checked.
\<close>

definition reconcile_theme :: "nat \<Rightarrow> Page \<Rightarrow> Page" where
  "reconcile_theme store pg =
     (let theme = getItem (localStorage pg) ''theme''
      in set_theme store theme pg)"

primrec run_task :: "task \<Rightarrow> Page \<Rightarrow> Page" where
  "run_task (ReconcileTheme store) pg = reconcile_theme store pg"

section \<open>Shell Composer (routes/layout.tsx, default export)\<close>

text \<open>The part of \<open>road-plan.config\<close> that the layout reads.\<close>

record LoadingBarConfig =
  enabled :: bool

record Config =
  loadingBar :: LoadingBarConfig

text \<open>
  JSX: an element with its attributes and children, a component, the slot, or a
  boolean child (what \<open>b && x\<close> leaves when \<open>b\<close> is false; it renders nothing).
\<close>

datatype jsx =
    Element string "(string \<times> string) list" "jsx list"
  | Component string
  | Slot
  | BoolChild bool

definition jsx_and :: "bool \<Rightarrow> jsx \<Rightarrow> jsx" where
  "jsx_and b x = (if b then x else BoolChild b)"

text \<open>The components and slots of a tree as they are rendered, in document order.\<close>

fun outline :: "jsx \<Rightarrow> jsx list" where
  "outline (Element tag attrs children) = concat (map outline children)"
| "outline (Component name) = [Component name]"
| "outline Slot = [Slot]"
| "outline (BoolChild b) = []"

text \<open>
  \<^verbatim>\<open>
  export default component$(() => {
    const store = useStore<Store>({ theme: "light" })
    useContextProvider(StoreContext, store);
    useVisibleTask$(() => { ... });
    return (
      <div class="app-layout">
        {config.loadingBar.enabled && <LoadingBar />}
        <Header />
        <main>
          <Slot />
        </main>
        <Footer />
      </div>
    );
  });
  \<close>
\<close>

definition layout :: "Config \<Rightarrow> Page \<Rightarrow> Page \<times> jsx" where
  "layout config pg =
     (let (store, pg1) = useStore \<lparr>theme = Some ''light''\<rparr> pg;
          pg2 = useContextProvider StoreContext store pg1;
          pg3 = useVisibleTask (ReconcileTheme store) pg2
      in (pg3,
          Element ''div'' [(''class'', ''app-layout'')]
            [jsx_and (enabled (loadingBar config)) (Component ''LoadingBar''),
             Component ''Header'',
             Element ''main'' [] [Slot],
             Component ''Footer'']))"

section \<open>Page lifecycle\<close>

text \<open>A page instance before anything has rendered.\<close>

definition new_page :: Page where
  "new_page =
     \<lparr>heap = [], contexts = Map.empty, visibleTasks = [],
      localStorage = Map.empty, signals = [], notifications = []\<rparr>"

text \<open>The browser takes the rendered page over, with the storage of the user.\<close>

definition deliver :: "(string \<rightharpoonup> string) \<Rightarrow> Page \<Rightarrow> Page" where
  "deliver storage pg = pg\<lparr>localStorage := storage\<rparr>"

text \<open>The page becomes visible: each waiting task runs, once, in registration order.\<close>

definition hydrate :: "Page \<Rightarrow> Page" where
  "hydrate pg = fold run_task (visibleTasks pg) (pg\<lparr>visibleTasks := []\<rparr>)"

definition page_lifecycle :: "Config \<Rightarrow> (string \<rightharpoonup> string) \<Rightarrow> Page" where
  "page_lifecycle config storage = hydrate (deliver storage (fst (layout config new_page)))"

section \<open>What a render and a reconciliation leave behind\<close>

lemma layout_page:
  "fst (layout config pg) =
     pg\<lparr>heap := heap pg @ [\<lparr>theme = Some ''light''\<rparr>],
        contexts := (contexts pg)(StoreContext \<mapsto> length (heap pg)),
        visibleTasks := visibleTasks pg @ [ReconcileTheme (length (heap pg))]\<rparr>"
  by (simp add: layout_def useStore_def useContextProvider_def useVisibleTask_def)

lemma layout_tree:
  "snd (layout config pg) =
     Element ''div'' [(''class'', ''app-layout'')]
       [jsx_and (enabled (loadingBar config)) (Component ''LoadingBar''),
        Component ''Header'',
        Element ''main'' [] [Slot],
        Component ''Footer'']"
  by (simp add: layout_def useStore_def)

lemma reconcile_theme_page:
  "reconcile_theme store pg =
     pg\<lparr>heap := (heap pg)[store := (heap pg ! store)\<lparr>theme := localStorage pg ''theme''\<rparr>],
        signals := signals pg @ [(store, ''theme'')],
        notifications :=
          notifications pg @
            (if read_theme store pg \<noteq> localStorage pg ''theme'' then [(store, ''theme'')] else [])\<rparr>"
  by (simp add: reconcile_theme_def set_theme_def getItem_def read_theme_def)

lemma read_theme_reconcile:
  "store < length (heap pg) \<Longrightarrow>
     read_theme store (reconcile_theme store pg) = localStorage pg ''theme''"
  by (simp add: reconcile_theme_page read_theme_def)

text \<open>
  The whole lifecycle from a new page: one store, holding whatever the storage has
  under \<open>theme\<close>; the task has run and is gone; one assignment was made, and the
  subscribers were notified unless the storage held \<open>"light"\<close>, the value already there.
\<close>

lemma page_lifecycle_page:
  "page_lifecycle config storage =
     \<lparr>heap = [\<lparr>theme = storage ''theme''\<rparr>],
      contexts = [StoreContext \<mapsto> 0],
      visibleTasks = [],
      localStorage = storage,
      signals = [(0, ''theme'')],
      notifications = (if storage ''theme'' = Some ''light'' then [] else [(0, ''theme'')])\<rparr>"
  by (simp add: page_lifecycle_def hydrate_def deliver_def layout_page new_page_def
      reconcile_theme_page read_theme_def)

text \<open>A second hydration finds no task waiting: the reconciler runs once per page.\<close>

lemma hydrate_once:
  "hydrate (page_lifecycle config storage) = page_lifecycle config storage"
  by (simp add: page_lifecycle_page hydrate_def)

section \<open>The cache directives\<close>

text \<open>
  C1. For every request event the handler leaves exactly two cache directives on the
  response, \<open>maxAge = 5\<close> and \<open>staleWhileRevalidate = 604800\<close>; they are the same for any
  two request events (whatever the route and the request body), and nothing else of
  the event changes.
\<close>

theorem onGet_sets_exactly_two_directives:
  "cacheDirectives (onGet ev) = [''maxAge'' \<mapsto> 5, ''staleWhileRevalidate'' \<mapsto> 604800]
   \<and> dom (cacheDirectives (onGet ev)) = {''maxAge'', ''staleWhileRevalidate''}
   \<and> cacheDirectives (onGet ev) = cacheDirectives (onGet ev')
   \<and> onGet ev = ev\<lparr>cacheDirectives := cacheDirectives (onGet ev)\<rparr>"
  by (auto simp: onGet_def cacheControl_def)

section \<open>The store before hydration\<close>

text \<open>
  C5. A render of the layout creates exactly one store instance (the heap grows by
  one), with \<open>theme = "light"\<close>, and assigns nothing. On the first render of a new page
  it is the only instance, and once the page is delivered to the browser, with any
  storage, the store still reads \<open>"light"\<close> as long as the reconciler has not run.
\<close>

theorem layout_creates_one_store_with_light:
  "heap (fst (layout config pg)) = heap pg @ [\<lparr>theme = Some ''light''\<rparr>]
   \<and> length (heap (fst (layout config pg))) = Suc (length (heap pg))
   \<and> signals (fst (layout config pg)) = signals pg
   \<and> heap (fst (layout config new_page)) = [\<lparr>theme = Some ''light''\<rparr>]
   \<and> read_theme 0 (deliver storage (fst (layout config new_page))) = Some ''light''"
  by (simp add: layout_page read_theme_def deliver_def new_page_def)

section \<open>The Hydration Reconciler\<close>

text \<open>
  C2. When nothing is persisted under the key \<open>theme\<close>, the read yields \<open>null\<close> and the
  reconciler assigns it: the store, which read \<open>"light"\<close> before, holds \<open>null\<close> after the
  lifecycle, not \<open>"light"\<close>; and the same holds for the reconciler run on any page whose
  storage has no such key, through any store instance of that page.
\<close>

theorem reconciler_assigns_null_when_nothing_persisted:
  assumes "getItem storage ''theme'' = None"
  shows "read_theme 0 (deliver storage (fst (layout config new_page))) = Some ''light''
    \<and> heap (page_lifecycle config storage) = [\<lparr>theme = None\<rparr>]
    \<and> read_theme 0 (page_lifecycle config storage) \<noteq> Some ''light''
    \<and> (store < length (heap pg) \<and> localStorage pg = storage
         \<longrightarrow> read_theme store (reconcile_theme store pg) = None)"
  using assms
  by (simp add: page_lifecycle_page read_theme_reconcile getItem_def)
     (simp add: read_theme_def deliver_def layout_page new_page_def)

theorem reconciler_assigns_null_witness:
  "getItem Map.empty ''theme'' = None
   \<and> heap (page_lifecycle \<lparr>loadingBar = \<lparr>enabled = True\<rparr>\<rparr> Map.empty) = [\<lparr>theme = None\<rparr>]
   \<and> read_theme 0
       (reconcile_theme 0
          \<lparr>heap = [\<lparr>theme = Some ''light''\<rparr>], contexts = [StoreContext \<mapsto> 0],
           visibleTasks = [], localStorage = Map.empty, signals = [], notifications = []\<rparr>) = None"
  using reconciler_assigns_null_when_nothing_persisted
    [of Map.empty "\<lparr>loadingBar = \<lparr>enabled = True\<rparr>\<rparr>" 0
        "\<lparr>heap = [\<lparr>theme = Some ''light''\<rparr>], contexts = [StoreContext \<mapsto> 0],
           visibleTasks = [], localStorage = Map.empty, signals = [], notifications = []\<rparr>"]
  by (simp add: getItem_def)

text \<open>
  C4. For every string \<open>s\<close> persisted under the key \<open>theme\<close>, whether or not the type
  \<open>Store\<close> names it, the store holds exactly \<open>s\<close> after the lifecycle, and the reconciler
  made exactly one assignment to the field \<open>theme\<close> of that store. The subscribers of
  the field are notified exactly once when \<open>s\<close> differs from the value the store held
  (after a render that is \<open>"light"\<close>, so for \<open>"dark"\<close> they are), and not at all when
  \<open>s\<close> is the value already there. The same holds for the reconciler run on any page
  with that storage, through any store instance of the page.
\<close>

theorem reconciler_assigns_verbatim_and_notifies_on_change:
  assumes "getItem storage ''theme'' = Some s"
  shows "heap (page_lifecycle config storage) = [\<lparr>theme = Some s\<rparr>]
    \<and> signals (page_lifecycle config storage) = [(0, ''theme'')]
    \<and> times_notified 0 ''theme'' (page_lifecycle config storage)
        = (if s = ''light'' then 0 else 1)
    \<and> (store < length (heap pg) \<and> localStorage pg = storage
         \<longrightarrow> read_theme store (reconcile_theme store pg) = Some s
           \<and> signals (reconcile_theme store pg) = signals pg @ [(store, ''theme'')]
           \<and> times_notified store ''theme'' (reconcile_theme store pg)
               = times_notified store ''theme'' pg
                 + (if read_theme store pg = Some s then 0 else 1))"
proof -
  from assms have s: "storage ''theme'' = Some s"
    by (simp add: getItem_def)
  have "heap (page_lifecycle config storage) = [\<lparr>theme = Some s\<rparr>]"
    and "signals (page_lifecycle config storage) = [(0, ''theme'')]"
    and "times_notified 0 ''theme'' (page_lifecycle config storage)
          = (if s = ''light'' then 0 else 1)"
    using s by (simp_all add: page_lifecycle_page times_notified_def)
  moreover have "read_theme store (reconcile_theme store pg) = Some s"
    if "store < length (heap pg)" "localStorage pg = storage"
    using that s by (simp add: read_theme_reconcile)
  moreover have "signals (reconcile_theme store pg) = signals pg @ [(store, ''theme'')]"
    by (simp add: reconcile_theme_page)
  moreover have "times_notified store ''theme'' (reconcile_theme store pg)
      = times_notified store ''theme'' pg + (if read_theme store pg = Some s then 0 else 1)"
    if "localStorage pg = storage"
    using that s by (simp add: reconcile_theme_page times_notified_def)
  ultimately show ?thesis
    by simp
qed

theorem reconciler_assigns_verbatim_and_notifies_on_change_witness:
  "getItem [''theme'' \<mapsto> ''dark''] ''theme'' = Some ''dark''
   \<and> heap (page_lifecycle \<lparr>loadingBar = \<lparr>enabled = False\<rparr>\<rparr> [''theme'' \<mapsto> ''dark''])
       = [\<lparr>theme = Some ''dark''\<rparr>]
   \<and> signals (page_lifecycle \<lparr>loadingBar = \<lparr>enabled = False\<rparr>\<rparr> [''theme'' \<mapsto> ''dark''])
       = [(0, ''theme'')]
   \<and> times_notified 0 ''theme''
       (page_lifecycle \<lparr>loadingBar = \<lparr>enabled = False\<rparr>\<rparr> [''theme'' \<mapsto> ''dark'']) = 1
   \<and> read_theme 0
       (reconcile_theme 0
          \<lparr>heap = [\<lparr>theme = Some ''light''\<rparr>], contexts = [StoreContext \<mapsto> 0],
           visibleTasks = [], localStorage = [''theme'' \<mapsto> ''dark''], signals = [],
           notifications = []\<rparr>)
       = Some ''dark''
   \<and> times_notified 0 ''theme''
       (reconcile_theme 0
          \<lparr>heap = [\<lparr>theme = Some ''light''\<rparr>], contexts = [StoreContext \<mapsto> 0],
           visibleTasks = [], localStorage = [''theme'' \<mapsto> ''dark''], signals = [],
           notifications = []\<rparr>)
       = 1"
  using reconciler_assigns_verbatim_and_notifies_on_change
    [of "[''theme'' \<mapsto> ''dark'']" "''dark''" "\<lparr>loadingBar = \<lparr>enabled = False\<rparr>\<rparr>" 0
        "\<lparr>heap = [\<lparr>theme = Some ''light''\<rparr>], contexts = [StoreContext \<mapsto> 0],
           visibleTasks = [], localStorage = [''theme'' \<mapsto> ''dark''], signals = [],
           notifications = []\<rparr>"]
  by (simp add: getItem_def read_theme_def times_notified_def)

text \<open>
  With \<open>"light"\<close> persisted, the reconciler assigns \<open>"light"\<close> to a store that holds
  \<open>"light"\<close>: the value is the persisted string, and nobody is notified.
\<close>

theorem persisted_light_notifies_nobody:
  "getItem [''theme'' \<mapsto> ''light''] ''theme'' = Some ''light''
   \<and> read_theme 0 (page_lifecycle \<lparr>loadingBar = \<lparr>enabled = True\<rparr>\<rparr> [''theme'' \<mapsto> ''light''])
       = Some ''light''
   \<and> times_notified 0 ''theme''
       (page_lifecycle \<lparr>loadingBar = \<lparr>enabled = True\<rparr>\<rparr> [''theme'' \<mapsto> ''light'']) = 0
   \<and> times_notified 0 ''theme''
       (page_lifecycle \<lparr>loadingBar = \<lparr>enabled = True\<rparr>\<rparr> [''theme'' \<mapsto> ''light'']) \<noteq> 1"
  by (simp add: page_lifecycle_page getItem_def read_theme_def times_notified_def)

text \<open>
  C3. The invariant "the field \<open>theme\<close> is \<open>"light"\<close>, \<open>"dark"\<close>, \<open>"system"\<close> or unset after
  every operation" does not survive a reconciliation with arbitrary storage: with
  \<open>"blue"\<close> persisted under \<open>theme\<close>, the store holds \<open>"blue"\<close> after the lifecycle, which
  is none of the values the type \<open>Store\<close> names.
\<close>

theorem theme_invariant_broken_by_foreign_string:
  "read_theme 0 (page_lifecycle config [''theme'' \<mapsto> ''blue'']) = Some ''blue''
   \<and> ''blue'' \<notin> theme_values"
  by (simp add: page_lifecycle_page read_theme_def theme_values_def)

text \<open>
  The invariant does hold on the storage the type expects: nothing under \<open>theme\<close>, or
  one of the three named values.
\<close>

lemma theme_invariant_on_expected_storage:
  assumes "storage ''theme'' = None \<or> (\<exists>s \<in> theme_values. storage ''theme'' = Some s)"
  shows "read_theme 0 (page_lifecycle config storage) \<in> insert None (Some ` theme_values)"
  using assms by (auto simp: page_lifecycle_page read_theme_def)

text \<open>
  C6. Running the reconciler's logic a second time, on the same storage, leaves the
  stores (and the storage) as the first run left them: for any page and any store
  instance, and in particular after the lifecycle of a new page.
\<close>

theorem reconciler_idempotent:
  "heap (reconcile_theme store (reconcile_theme store pg)) = heap (reconcile_theme store pg)
   \<and> localStorage (reconcile_theme store (reconcile_theme store pg))
       = localStorage (reconcile_theme store pg)
   \<and> heap (run_task (ReconcileTheme 0) (page_lifecycle config storage))
       = heap (page_lifecycle config storage)"
  by (cases "store < length (heap pg)")
     (simp_all add: reconcile_theme_page page_lifecycle_page list_update_beyond)



section \<open>Context Distribution\<close>

text \<open>
  C8. After the layout has rendered, a descendant that resolves \<open>StoreContext\<close> obtains
  the instance the layout created; a second descendant resolving it later, also after
  the first has assigned \<open>theme\<close> through its handle or after another component has
  created a store of its own, obtains the same instance, and reads through it the
  value the first one assigned.
\<close>

theorem context_resolves_to_one_shared_store:
  "\<exists>r1 r2. useContext StoreContext (fst (layout config pg)) = Some r1
     \<and> useContext StoreContext (set_theme r1 v (fst (layout config pg))) = Some r2
     \<and> r1 = r2
     \<and> useContext StoreContext (snd (useStore other (fst (layout config pg)))) = Some r1
     \<and> heap (fst (layout config pg)) ! r1 = \<lparr>theme = Some ''light''\<rparr>
     \<and> read_theme r2 (set_theme r1 v (fst (layout config pg))) = v"
  by (simp add: layout_page useContext_def set_theme_def read_theme_def useStore_def)

section \<open>The composed tree\<close>

text \<open>
  C7. The tree the layout composes contains the LoadingBar component exactly when
  \<open>config.loadingBar.enabled\<close> is true, and what it renders is, in order, the LoadingBar
  (when enabled), the Header, the slot and the Footer.
\<close>

theorem layout_tree_has_loading_bar_iff_enabled:
  "(Component ''LoadingBar'' \<in> set (outline (snd (layout config pg))))
     = enabled (loadingBar config)
   \<and> outline (snd (layout config pg)) =
       (if enabled (loadingBar config) then [Component ''LoadingBar''] else [])
       @ [Component ''Header'', Slot, Component ''Footer'']"
  by (simp add: layout_tree jsx_and_def)


end
